theory Spec2Isabelle
  imports Complex_Main
begin

section \<open>Python values and built-ins used by the sales bot\<close>

text \<open>
  The marketplace answers in JSON. A decoded body is a Python value built from
  \<open>None\<close>, booleans, integers, strings, lists and dicts; the code reads it with
  \<open>.get\<close>, truth tests, \<open>str()\<close> and \<open>int()\<close>. Texts are character lists and are
  exact for ASCII text. JSON numbers with a fraction or an exponent (Python floats) are
  not part of this value type. A dict is an association list in insertion order; the
  first entry of a key is the one that counts.
\<close>

datatype json =
    JNull
  | JBool bool
  | JInt int
  | JStr string
  | JList "json list"
  | JDict "(string \<times> json) list"

text \<open>The exception classes that occur; all of them are subclasses of \<open>Exception\<close>.\<close>

datatype exn =
    TypeError
  | AttributeError
  | ValueError
  | IndexError
  | OverflowError
  | ClientError
  | DiscordError

definition bindE :: "exn + 'a \<Rightarrow> ('a \<Rightarrow> exn + 'b) \<Rightarrow> exn + 'b" where
  "bindE m f = (case m of Inl e \<Rightarrow> Inl e | Inr v \<Rightarrow> f v)"

text \<open>Truth value of an object, as tested by \<open>if x:\<close> and \<open>if not x:\<close>.\<close>

fun truthy :: "json \<Rightarrow> bool" where
  "truthy JNull = False"
| "truthy (JBool b) = b"
| "truthy (JInt n) = (n \<noteq> 0)"
| "truthy (JStr s) = (s \<noteq> [])"
| "truthy (JList xs) = (xs \<noteq> [])"
| "truthy (JDict kvs) = (kvs \<noteq> [])"

text \<open>\<open>d.get(key, default)\<close>: only a dict has the method.\<close>

fun py_get :: "json \<Rightarrow> string \<Rightarrow> json \<Rightarrow> exn + json" where
  "py_get (JDict kvs) k d = Inr (case map_of kvs k of Some v \<Rightarrow> v | None \<Rightarrow> d)"
| "py_get _ k d = Inl AttributeError"

text \<open>The items of a dict, each key once, in insertion order.\<close>

fun dict_items :: "(string \<times> 'a) list \<Rightarrow> string list \<Rightarrow> (string \<times> 'a) list" where
  "dict_items [] seen = []"
| "dict_items ((k, v) # kvs) seen =
     (if k \<in> set seen then dict_items kvs seen else (k, v) # dict_items kvs (k # seen))"

text \<open>\<open>for x in v\<close>: a list gives its elements, a dict its keys, a string its characters.\<close>

fun py_iter :: "json \<Rightarrow> exn + json list" where
  "py_iter (JList xs) = Inr xs"
| "py_iter (JDict kvs) = Inr (map (\<lambda>(k, v). JStr k) (dict_items kvs []))"
| "py_iter (JStr s) = Inr (map (\<lambda>c. JStr [c]) s)"
| "py_iter _ = Inl TypeError"

definition is_substring :: "string \<Rightarrow> string \<Rightarrow> bool" where
  "is_substring k s = list_ex (\<lambda>i. take (length k) (drop i s) = k) [0..<Suc (length s)]"

text \<open>\<open>key in v\<close> for a string \<open>key\<close>.\<close>

fun py_contains :: "json \<Rightarrow> string \<Rightarrow> exn + bool" where
  "py_contains (JDict kvs) k = Inr (map_of kvs k \<noteq> None)"
| "py_contains (JList xs) k = Inr (JStr k \<in> set xs)"
| "py_contains (JStr s) k = Inr (is_substring k s)"
| "py_contains _ k = Inl TypeError"

text \<open>Lists and dicts cannot be dict keys.\<close>

fun hashable :: "json \<Rightarrow> bool" where
  "hashable (JList xs) = False"
| "hashable (JDict kvs) = False"
| "hashable _ = True"

text \<open>Equality of dict keys: \<open>True == 1\<close> and \<open>False == 0\<close>.\<close>

fun key_norm :: "json \<Rightarrow> json" where
  "key_norm (JBool b) = JInt (if b then 1 else 0)"
| "key_norm v = v"

definition py_key_eq :: "json \<Rightarrow> json \<Rightarrow> bool" where
  "py_key_eq a b = (key_norm a = key_norm b)"

subsection \<open>Decimal text of integers\<close>

definition digit_char :: "nat \<Rightarrow> char" where
  "digit_char d = char_of (48 + d)"

function string_of_nat :: "nat \<Rightarrow> string" where
  "string_of_nat n =
     (if n < 10 then [digit_char n] else string_of_nat (n div 10) @ [digit_char (n mod 10)])"
  by pat_completeness auto
termination
  by (relation "measure id") auto

definition string_of_int :: "int \<Rightarrow> string" where
  "string_of_int i =
     (if i < 0 then CHR ''-'' # string_of_nat (nat (- i)) else string_of_nat (nat i))"

subsection \<open>\<open>repr()\<close> and \<open>str()\<close>\<close>

definition hex_digit :: "nat \<Rightarrow> char" where
  "hex_digit d = (if d < 10 then char_of (48 + d) else char_of (87 + d))"

definition repr_char :: "char \<Rightarrow> char \<Rightarrow> string" where
  "repr_char q c =
     (if c = CHR 0x5C then [CHR 0x5C, CHR 0x5C]
      else if c = q then [CHR 0x5C, q]
      else if c = CHR 0x09 then [CHR 0x5C, CHR ''t'']
      else if c = CHR 0x0A then [CHR 0x5C, CHR ''n'']
      else if c = CHR 0x0D then [CHR 0x5C, CHR ''r'']
      else if of_char c < (32::nat) \<or> of_char c = (127::nat)
        then [CHR 0x5C, CHR ''x'', hex_digit (of_char c div 16), hex_digit (of_char c mod 16)]
      else [c])"

definition repr_str :: "string \<Rightarrow> string" where
  "repr_str s =
     (let q = (if CHR 0x27 \<in> set s \<and> CHR 0x22 \<notin> set s then CHR 0x22 else CHR 0x27)
      in q # concat (map (repr_char q) s) @ [q])"

fun join :: "string \<Rightarrow> string list \<Rightarrow> string" where
  "join sep [] = []"
| "join sep [x] = x"
| "join sep (x # y # ys) = x @ sep @ join sep (y # ys)"

fun py_repr :: "json \<Rightarrow> string" where
  "py_repr JNull = ''None''"
| "py_repr (JBool b) = (if b then ''True'' else ''False'')"
| "py_repr (JInt n) = string_of_int n"
| "py_repr (JStr s) = repr_str s"
| "py_repr (JList xs) = ''['' @ join '', '' (map py_repr xs) @ '']''"
| "py_repr (JDict kvs) =
     ''{'' @ join '', '' (map (\<lambda>(k, s). repr_str k @ '': '' @ s)
                          (dict_items (map (\<lambda>(k, v). (k, py_repr v)) kvs) [])) @ ''}''"

text \<open>\<open>str(v)\<close>, also what an f-string writes for \<open>{v}\<close>: a string is itself.\<close>

fun py_str :: "json \<Rightarrow> string" where
  "py_str (JStr s) = s"
| "py_str v = py_repr v"

subsection \<open>\<open>int()\<close>\<close>

definition is_space :: "char \<Rightarrow> bool" where
  "is_space c = (let n = (of_char c :: nat) in (9 \<le> n \<and> n \<le> 13) \<or> n = 32)"

definition is_digit :: "char \<Rightarrow> bool" where
  "is_digit c = (let n = (of_char c :: nat) in 48 \<le> n \<and> n \<le> 57)"

definition digit_val :: "char \<Rightarrow> nat" where
  "digit_val c = of_char c - 48"

definition strip :: "string \<Rightarrow> string" where
  "strip s = rev (dropWhile is_space (rev (dropWhile is_space s)))"

text \<open>
  The digits after the first one; a single underscore may stand between two digits.
\<close>

fun int_digits :: "string \<Rightarrow> nat \<Rightarrow> nat option" where
  "int_digits [] acc = Some acc"
| "int_digits (c # cs) acc =
     (if is_digit c then int_digits cs (acc * 10 + digit_val c)
      else if c = CHR ''_'' then
        (case cs of
           [] \<Rightarrow> None
         | d # ds \<Rightarrow> if is_digit d then int_digits cs acc else None)
      else None)"

definition unsigned_int :: "string \<Rightarrow> nat option" where
  "unsigned_int s =
     (case s of
        [] \<Rightarrow> None
      | d # ds \<Rightarrow> if is_digit d then int_digits ds (digit_val d) else None)"

definition py_int_str :: "string \<Rightarrow> int option" where
  "py_int_str s =
     (case strip s of
        [] \<Rightarrow> None
      | c # cs \<Rightarrow>
          if c = CHR ''-'' then map_option (\<lambda>n. - int n) (unsigned_int cs)
          else if c = CHR ''+'' then map_option int (unsigned_int cs)
          else map_option int (unsigned_int (c # cs)))"

text \<open>
  \<open>int(v)\<close> inside \<open>try: ... except (ValueError, TypeError)\<close>: \<open>None\<close> stands for either
  exception. The interpreter's optional cap on the number of digits of a converted
  string is not modelled.
\<close>

fun py_int :: "json \<Rightarrow> int option" where
  "py_int (JInt n) = Some n"
| "py_int (JBool b) = Some (if b then 1 else 0)"
| "py_int (JStr s) = py_int_str s"
| "py_int _ = None"

section \<open>sales_fetcher.py\<close>

type_synonym time = nat

record SaleEvent =
  tx_hash :: json
  buyer :: json
  seller :: json
  token_id :: "string option"
  token_ids :: "string list option"
  token_count :: int
  total_price :: int
  timestamp :: "time option"

subsection \<open>\<open>_parse_sales_response\<close>\<close>

text \<open>\<open>event.get("transaction", {}).get("transaction_hash")\<close>\<close>

definition event_tx_hash :: "json \<Rightarrow> exn + json" where
  "event_tx_hash event =
     bindE (py_get event ''transaction'' (JDict []))
       (\<lambda>t. py_get t ''transaction_hash'' JNull)"

text \<open>
  \<open>tx_groups\<close> is a dict from transaction hash to the list of its events, in insertion
  order.
\<close>

type_synonym tx_groups = "(json \<times> json list) list"

definition has_key :: "json \<Rightarrow> tx_groups \<Rightarrow> bool" where
  "has_key k g = list_ex (\<lambda>(k', es). py_key_eq k k') g"

definition append_event :: "json \<Rightarrow> json \<Rightarrow> tx_groups \<Rightarrow> tx_groups" where
  "append_event k event g =
     map (\<lambda>(k', es). if py_key_eq k k' then (k', es @ [event]) else (k', es)) g"

fun group_events :: "json list \<Rightarrow> tx_groups \<Rightarrow> exn + tx_groups" where
  "group_events [] g = Inr g"
| "group_events (event # events) g =
     bindE (event_tx_hash event) (\<lambda>tx.
       if \<not> truthy tx then group_events events g
       else if \<not> hashable tx then Inl TypeError
       else group_events events
              (append_event tx event (if has_key tx g then g else g @ [(tx, [])])))"

text \<open>The token id an event contributes, if any.\<close>

definition event_token :: "json \<Rightarrow> exn + string option" where
  "event_token event =
     bindE (py_get event ''asset'' JNull) (\<lambda>asset.
       if truthy asset then
         bindE (py_get asset ''token_id'' JNull) (\<lambda>tid.
           Inr (if truthy tid then Some (py_str tid) else None))
       else Inr None)"

text \<open>
  Whether the event is paid in the native currency:
  \<open>payment_token.get("symbol") == "ETH" or payment_token.get("name") == "Ether"\<close>.
\<close>

definition event_is_native :: "json \<Rightarrow> exn + bool" where
  "event_is_native event =
     bindE (py_get event ''payment_token'' (JDict [])) (\<lambda>pt.
       bindE (py_get pt ''symbol'' JNull) (\<lambda>sym.
         if sym = JStr ''ETH'' then Inr True
         else bindE (py_get pt ''name'' JNull) (\<lambda>nm. Inr (nm = JStr ''Ether''))))"

text \<open>The amount an event adds to \<open>total_price\<close>.\<close>

definition event_price :: "json \<Rightarrow> exn + int" where
  "event_price event =
     bindE (event_is_native event) (\<lambda>native.
       if native then
         bindE (py_get event ''total_price'' (JStr ''0'')) (\<lambda>p.
           Inr (case py_int p of Some v \<Rightarrow> v | None \<Rightarrow> 0))
       else Inr 0)"

text \<open>The inner loop over the events of one transaction.\<close>

fun collect :: "json list \<Rightarrow> string list \<Rightarrow> int \<Rightarrow> exn + (string list \<times> int)" where
  "collect [] ids price = Inr (ids, price)"
| "collect (event # events) ids price =
     bindE (event_token event) (\<lambda>tok.
       bindE (event_price event) (\<lambda>p.
         collect events (case tok of Some t \<Rightarrow> ids @ [t] | None \<Rightarrow> ids) (price + p)))"

text \<open>The call \<open>SaleEvent(...)\<close> for the collected token ids and price.\<close>

definition make_sale :: "time \<Rightarrow> json \<Rightarrow> json \<Rightarrow> json \<Rightarrow> string list \<Rightarrow> int \<Rightarrow> SaleEvent" where
  "make_sale now tx b s ids price =
     \<lparr>tx_hash = tx,
      buyer = b,
      seller = s,
      token_id = (if length ids = 1 then Some (hd ids) else None),
      token_ids = (if length ids > 1 then Some ids else None),
      token_count = int (length ids),
      total_price = price,
      timestamp = Some now\<rparr>"

text \<open>One transaction: no sale when the event list is empty or no token id is found.\<close>

definition sale_of_group :: "time \<Rightarrow> json \<Rightarrow> json list \<Rightarrow> exn + SaleEvent option" where
  "sale_of_group now tx events =
     (case events of
        [] \<Rightarrow> Inr None
      | first_event # _ \<Rightarrow>
          bindE (bindE (py_get first_event ''winner_account'' (JDict []))
                   (\<lambda>a. py_get a ''address'' (JStr ''Unknown''))) (\<lambda>b.
          bindE (bindE (py_get first_event ''seller'' (JDict []))
                   (\<lambda>a. py_get a ''address'' (JStr ''Unknown''))) (\<lambda>s.
          bindE (collect events [] 0) (\<lambda>(ids, price).
            if ids = [] then Inr None
            else Inr (Some (make_sale now tx b s ids price))))))"

fun sales_of_groups :: "time \<Rightarrow> tx_groups \<Rightarrow> exn + SaleEvent list" where
  "sales_of_groups now [] = Inr []"
| "sales_of_groups now ((tx, events) # g) =
     bindE (sale_of_group now tx events) (\<lambda>r.
       bindE (sales_of_groups now g) (\<lambda>sales.
         Inr (case r of Some sale \<Rightarrow> sale # sales | None \<Rightarrow> sales)))"

definition parse_sales_response :: "time \<Rightarrow> json \<Rightarrow> exn + SaleEvent list" where
  "parse_sales_response now data =
     bindE (py_contains data ''asset_events'') (\<lambda>present.
       if \<not> present then Inr []
       else
         bindE (py_get data ''asset_events'' (JList [])) (\<lambda>v.
         bindE (py_iter v) (\<lambda>events.
         bindE (group_events events []) (\<lambda>g.
           sales_of_groups now g))))"

subsection \<open>The HTTP side\<close>

text \<open>
  What one \<open>session.get\<close> gives: an exception of the transport, or a response with its
  status, the outcome of decoding its body as JSON and the outcome of reading it as text.
  The network is a function from the requested URL and query parameters to that outcome.
\<close>

record response =
  status :: int
  json_body :: "exn + json"
  text_body :: "exn + string"

type_synonym http = "string \<Rightarrow> (string \<times> json) list \<Rightarrow> exn + response"

definition OPENSEA_API_BASE :: string where
  "OPENSEA_API_BASE = ''https://api.opensea.io/api/v1''"

record SalesFetcher =
  contract_address :: string
  api_key :: "string option"
  last_fetch_time :: time

subsection \<open>\<open>fetch_recent_sales\<close>\<close>

text \<open>
  The body of the \<open>try\<close> block. \<open>now_parse\<close> is the clock read by the parser for the
  sales' timestamps, \<open>now\<close> the clock read for the watermark afterwards.
\<close>

definition events_url :: string where
  "events_url = OPENSEA_API_BASE @ ''/events''"

definition events_query :: "SalesFetcher \<Rightarrow> (string \<times> json) list" where
  "events_query self =
     [(''asset_contract_address'', JStr (contract_address self)),
      (''event_type'', JStr ''successful''),
      (''only_opensea'', JStr ''false''),
      (''occurred_after'', JInt (int (last_fetch_time self))),
      (''limit'', JInt 50)]"

definition fetch_recent_sales_try ::
  "http \<Rightarrow> time \<Rightarrow> time \<Rightarrow> SalesFetcher \<Rightarrow> exn + (SaleEvent list \<times> SalesFetcher)" where
  "fetch_recent_sales_try get now_parse now self =
     bindE (get events_url (events_query self)) (\<lambda>resp.
       if status resp = 200 then
         bindE (json_body resp) (\<lambda>data.
         bindE (parse_sales_response now_parse data) (\<lambda>sales.
           Inr (sales, self\<lparr>last_fetch_time := now\<rparr>)))
       else if status resp = 429 then Inr ([], self)
       else bindE (text_body resp) (\<lambda>t. Inr ([], self)))"

text \<open>With the handler \<open>except Exception: return []\<close>.\<close>

definition fetch_recent_sales ::
  "http \<Rightarrow> time \<Rightarrow> time \<Rightarrow> SalesFetcher \<Rightarrow> SaleEvent list \<times> SalesFetcher" where
  "fetch_recent_sales get now_parse now self =
     (case fetch_recent_sales_try get now_parse now self of
        Inl e \<Rightarrow> ([], self)
      | Inr r \<Rightarrow> r)"

subsection \<open>\<open>_fetch_single_image\<close>\<close>

text \<open>
  \<open>a or b or c or d\<close> gives the first operand that is true, else the last one. The result
  is \<open>JNull\<close> where the code returns \<open>None\<close>.
\<close>

definition fetch_single_image_try :: "http \<Rightarrow> SalesFetcher \<Rightarrow> string \<Rightarrow> exn + json" where
  "fetch_single_image_try get self tid =
     bindE (get (OPENSEA_API_BASE @ ''/asset/'' @ contract_address self @ ''/'' @ tid) [])
       (\<lambda>resp.
         if status resp = 200 then
           bindE (json_body resp) (\<lambda>data.
           bindE (py_get data ''image_url'' JNull) (\<lambda>a.
             if truthy a then Inr a else
           bindE (py_get data ''image_original_url'' JNull) (\<lambda>b.
             if truthy b then Inr b else
           bindE (py_get data ''image_preview_url'' JNull) (\<lambda>c.
             if truthy c then Inr c else
           bindE (py_get data ''collection'' (JDict [])) (\<lambda>col.
             py_get col ''image_url'' JNull)))))
         else if status resp = 429 then Inr JNull
         else Inr JNull)"

definition fetch_single_image :: "http \<Rightarrow> SalesFetcher \<Rightarrow> string \<Rightarrow> json" where
  "fetch_single_image get self tid =
     (case fetch_single_image_try get self tid of Inl e \<Rightarrow> JNull | Inr v \<Rightarrow> v)"

subsection \<open>\<open>fetch_nft_images\<close>\<close>

text \<open>
  What the enricher does, in order: the lookups of one batch (issued together and
  awaited together), and the pause \<open>asyncio.sleep(0.1)\<close>.
\<close>

datatype action = Lookups "string list" | Sleep

text \<open>\<open>isinstance(result, str) and result\<close>\<close>

fun nonempty_str :: "json \<Rightarrow> string option" where
  "nonempty_str (JStr s) = (if s = [] then None else Some s)"
| "nonempty_str _ = None"

definition batch_size :: nat where
  "batch_size = 5"

text \<open>The loop \<open>for i in range(0, len(token_ids), batch_size)\<close>, from index \<open>i\<close> on.\<close>

function batches ::
  "http \<Rightarrow> SalesFetcher \<Rightarrow> string list \<Rightarrow> nat \<Rightarrow> string list \<Rightarrow> action list
     \<Rightarrow> string list \<times> action list" where
  "batches get self tids i images acts =
     (if i < length tids then
        (let batch = take batch_size (drop i tids);
             results = map (fetch_single_image get self) batch;
             images' = images @ List.map_filter nonempty_str results;
             acts' = acts @ [Lookups batch]
                       @ (if i + batch_size < length tids then [Sleep] else [])
         in batches get self tids (i + batch_size) images' acts')
      else (images, acts))"
  by pat_completeness auto
termination
  by (relation "measure (\<lambda>(get, self, tids, i, images, acts). length tids - i)")
     (auto simp: batch_size_def)

text \<open>
  The argument \<open>arg\<close> is what the caller passes for \<open>token_ids\<close>, which may be \<open>None\<close>: slicing
  \<open>None\<close> raises TypeError inside the \<open>try\<close>, and the handler leaves \<open>images\<close> as it is.
\<close>

definition fetch_nft_images_try ::
  "http \<Rightarrow> SalesFetcher \<Rightarrow> string list option \<Rightarrow> exn + (string list \<times> action list)" where
  "fetch_nft_images_try get self arg =
     (case arg of
        None \<Rightarrow> Inl TypeError
      | Some tids \<Rightarrow> Inr (batches get self (take 20 tids) 0 [] []))"

definition fetch_nft_images_run ::
  "http \<Rightarrow> SalesFetcher \<Rightarrow> string list option \<Rightarrow> string list \<times> action list" where
  "fetch_nft_images_run get self arg =
     (case fetch_nft_images_try get self arg of
        Inl e \<Rightarrow> ([], [])
      | Inr r \<Rightarrow> r)"

definition fetch_nft_images :: "http \<Rightarrow> SalesFetcher \<Rightarrow> string list option \<Rightarrow> string list" where
  "fetch_nft_images get self arg = fst (fetch_nft_images_run get self arg)"

section \<open>bot.py\<close>

subsection \<open>\<open>get_sweep_category\<close>\<close>

definition get_sweep_category :: "int \<Rightarrow> string" where
  "get_sweep_category count =
     (if count = 1 then ''single''
      else if 2 \<le> count \<and> count \<le> 5 then ''mini''
      else if 6 \<le> count \<and> count \<le> 10 then ''big''
      else ''huge'')"

subsection \<open>Double-precision arithmetic of \<open>format_price\<close>\<close>

text \<open>
  A Python float is an IEEE 754 binary64 number. A finite one is a rational; the result
  of an operation is the exact result rounded to the nearest representable number, ties
  to the even significand.
\<close>

definition round_half_even :: "rat \<Rightarrow> int" where
  "round_half_even q =
     (let f = \<lfloor>q\<rfloor>; r = q - of_int f
      in if r < 1 / 2 then f else if 1 / 2 < r then f + 1 else if even f then f else f + 1)"

function bit_length :: "nat \<Rightarrow> nat" where
  "bit_length n = (if n = 0 then 0 else Suc (bit_length (n div 2)))"
  by pat_completeness auto
termination
  by (relation "measure id") auto

definition pow2 :: "int \<Rightarrow> rat" where
  "pow2 e = (if 0 \<le> e then 2 ^ nat e else 1 / 2 ^ nat (- e))"

text \<open>
  For \<open>q > 0\<close>, the exponent \<open>e\<close> with \<open>2^e \<le> q < 2^(e+1)\<close>: for \<open>q \<ge> 1\<close> it is
  that of the integer part of \<open>q\<close>; for \<open>q < 1\<close> it is \<open>-k\<close> for the least \<open>k\<close> with
  \<open>1 / q \<le> 2^k\<close>.
\<close>

definition ilog2 :: "rat \<Rightarrow> int" where
  "ilog2 q =
     (if 1 \<le> q then int (bit_length (nat \<lfloor>q\<rfloor>)) - 1
      else - int (bit_length (nat (\<lceil>1 / q\<rceil> - 1))))"

text \<open>
  Rounding to binary64: 53 significant bits, least exponent \<open>-1022\<close>; \<open>None\<close> when the
  rounded magnitude reaches \<open>2^1024\<close> (overflow).
\<close>

definition to_double :: "rat \<Rightarrow> rat option" where
  "to_double q =
     (if q = 0 then Some 0
      else
        (let a = \<bar>q\<bar>;
             e = max (ilog2 a) (- 1022);
             u = pow2 (e - 52);
             r = of_int (round_half_even (a / u)) * u
         in if pow2 1024 \<le> r then None else Some (sgn q * r)))"

text \<open>
  The format \<open>.4f\<close>: the exact value rounded to four decimals (ties to even), written
  with all digits of the integer part, a point and four decimals.
\<close>

definition format_4f :: "rat \<Rightarrow> string" where
  "format_4f x =
     (let k = nat (round_half_even (\<bar>x\<bar> * 10000));
          f = k mod 10000
      in (if x < 0 then ''-'' else [])
         @ string_of_nat (k div 10000) @ ''.''
         @ [digit_char (f div 1000), digit_char (f div 100 mod 10),
            digit_char (f div 10 mod 10), digit_char (f mod 10)])"

text \<open>\<open>s.rstrip(c)\<close> for a single character \<open>c\<close>.\<close>

definition rstrip :: "char \<Rightarrow> string \<Rightarrow> string" where
  "rstrip c s = rev (dropWhile (\<lambda>x. x = c) (rev s))"

subsection \<open>\<open>format_price\<close>\<close>

text \<open>
  \<open>price_wei / 1e18\<close> converts the integer to a float first, which raises OverflowError
  when the integer is too large; the division itself cannot overflow here, and a float
  division that did would give an infinity, which \<open>.4f\<close> writes as \<open>inf\<close>.
\<close>

definition format_price :: "int \<Rightarrow> exn + string" where
  "format_price price_wei =
     (case to_double (of_int price_wei) of
        None \<Rightarrow> Inl OverflowError
      | Some x \<Rightarrow>
          (case to_double (x / 10 ^ 18) of
             None \<Rightarrow> Inr (if x < 0 then ''-inf'' else ''inf'')
           | Some eth_price \<Rightarrow>
               Inr (rstrip CHR ''.'' (rstrip CHR ''0'' (format_4f eth_price)))))"

subsection \<open>\<open>create_sale_embed\<close>\<close>

datatype color = Blue | Green | Orange | Red

record embed =
  title :: string
  description :: string
  embed_color :: color
  embed_timestamp :: time
  embed_fields :: "(string \<times> string \<times> bool) list"
  image :: "string option"
  footer :: "string option"

text \<open>\<open>sale.buyer[:10]\<close> as the f-string writes it; only strings and lists can be sliced.\<close>

fun slice10_str :: "json \<Rightarrow> exn + string" where
  "slice10_str (JStr s) = Inr (take 10 s)"
| "slice10_str (JList xs) = Inr (py_repr (JList (take 10 xs)))"
| "slice10_str _ = Inl TypeError"

definition opt_str :: "string option \<Rightarrow> string" where
  "opt_str t = (case t of None \<Rightarrow> ''None'' | Some s \<Rightarrow> s)"

text \<open>The emoji of the titles, as their UTF-8 bytes.\<close>

definition emoji_art :: string where
  "emoji_art = [CHR 0xF0, CHR 0x9F, CHR 0x8E, CHR 0xA8]"

definition emoji_zap :: string where
  "emoji_zap = [CHR 0xE2, CHR 0x9A, CHR 0xA1]"

definition emoji_fire :: string where
  "emoji_fire = [CHR 0xF0, CHR 0x9F, CHR 0x94, CHR 0xA5]"

definition emoji_boom :: string where
  "emoji_boom = [CHR 0xF0, CHR 0x9F, CHR 0x92, CHR 0xA5]"

text \<open>
  \<open>[f"[NFT #{sale.token_ids[i]}]({img})" for i, img in enumerate(nft_images[:10])]\<close>,
  from index \<open>i\<close> on.
\<close>

fun image_links :: "string list option \<Rightarrow> nat \<Rightarrow> string list \<Rightarrow> exn + string list" where
  "image_links tids i [] = Inr []"
| "image_links tids i (img # imgs) =
     (case tids of
        None \<Rightarrow> Inl TypeError
      | Some ts \<Rightarrow>
          if i < length ts then
            bindE (image_links tids (Suc i) imgs) (\<lambda>rest.
              Inr ((''[NFT #'' @ ts ! i @ '']('' @ img @ '')'') # rest))
          else Inl IndexError)"

definition create_sale_embed :: "time \<Rightarrow> SaleEvent \<Rightarrow> string list \<Rightarrow> exn + embed" where
  "create_sale_embed now sale nft_images =
     (let count = token_count sale;
          category = get_sweep_category count
      in
      bindE (slice10_str (buyer sale)) (\<lambda>b.
      bindE (format_price (total_price sale)) (\<lambda>price.
      bindE (if nft_images \<noteq> [] \<and> length nft_images > 1
             then bindE (image_links (token_ids sale) 0 (take 10 nft_images)) (\<lambda>links.
                    Inr [(''NFT Images'',
                          join [CHR 0x0A] links
                            @ (if length nft_images > 10
                               then CHR 0x0A # ''... and ''
                                      @ string_of_int (int (length nft_images) - 10)
                                      @ '' more''
                               else []),
                          False)])
             else Inr []) (\<lambda>image_fields.
        Inr \<lparr>
          title =
            (if category = ''single'' then
               emoji_art @ '' User '' @ b @ ''... bought NFT #'' @ opt_str (token_id sale) @ ''!''
             else if category = ''mini'' then
               emoji_zap @ '' Mini sweep! User '' @ b @ ''... grabbed ''
                 @ string_of_int count @ '' NFTs!''
             else if category = ''big'' then
               emoji_fire @ '' Big sweep alert! User '' @ b @ ''... swept ''
                 @ string_of_int count @ '' NFTs!''
             else
               emoji_boom @ '' Huge sweep! User '' @ b @ ''... dominated with ''
                 @ string_of_int count @ '' NFTs!''),
          description =
            (if category = ''single'' then ''**Price:** '' @ price @ '' ETH''
             else ''**Total Price:** '' @ price @ '' ETH''),
          embed_color =
            (if category = ''single'' then Blue
             else if category = ''mini'' then Green
             else if category = ''big'' then Orange
             else Red),
          embed_timestamp = now,
          embed_fields =
            (if truthy (tx_hash sale)
             then [(''Transaction'',
                    ''[View on Etherscan](https://etherscan.io/tx/''
                      @ py_str (tx_hash sale) @ '')'',
                    False)]
             else [])
            @ image_fields,
          image = (case nft_images of [] \<Rightarrow> None | img # _ \<Rightarrow> Some img),
          footer = Some ''NFT Sales Monitor'' \<rparr>))))"

subsection \<open>\<open>process_sales\<close>\<close>

text \<open>
  The key kept in \<open>processed_sales\<close>:
  \<open>f"{sale.tx_hash}_{sale.token_id if sale.token_count == 1 else sale.token_ids[0]}"\<close>.
  It is computed outside the \<open>try\<close> block.
\<close>

definition sale_id :: "SaleEvent \<Rightarrow> exn + string" where
  "sale_id sale =
     (if token_count sale = 1 then
        Inr (py_str (tx_hash sale) @ ''_'' @ opt_str (token_id sale))
      else
        (case token_ids sale of
           None \<Rightarrow> Inl TypeError
         | Some [] \<Rightarrow> Inl IndexError
         | Some (t # ts) \<Rightarrow> Inr (py_str (tx_hash sale) @ ''_'' @ t)))"

text \<open>
  What a run of \<open>process_sales\<close> does that can be seen from outside, in order: the log
  lines, the message delivered to the channel (with the key of its sale) and the pause
  \<open>asyncio.sleep(0.3)\<close>.
\<close>

datatype bot_event =
    Log_fetching string
  | Sent string embed
  | Log_posted string
  | Pause
  | Log_error string exn

record bot =
  processed_sales :: "string set"
  trace :: "bot_event list"

text \<open>
  \<open>channel.send(embed=embed)\<close> either delivers the message (\<open>None\<close>) or raises.
\<close>

type_synonym channel = "embed \<Rightarrow> exn option"

text \<open>The body of the \<open>try\<close> block for one sale.\<close>

definition process_sale_try ::
  "http \<Rightarrow> SalesFetcher \<Rightarrow> channel \<Rightarrow> time \<Rightarrow> SaleEvent \<Rightarrow> string \<Rightarrow> bot \<Rightarrow> exn + bot" where
  "process_sale_try get fetcher send now sale sid st =
     (let nft_images = fetch_nft_images get fetcher (token_ids sale)
      in bindE (create_sale_embed now sale nft_images) (\<lambda>e.
           case send e of
             Some err \<Rightarrow> Inl err
           | None \<Rightarrow>
               Inr (st\<lparr>processed_sales := insert sid (processed_sales st),
                       trace := trace st @ [Sent sid e, Log_posted sid, Pause]\<rparr>)))"

text \<open>
  The loop over the sales. The first component of the result is the exception that left
  the function, if any; the state is the one reached.
\<close>

fun process_sales ::
  "http \<Rightarrow> SalesFetcher \<Rightarrow> channel \<Rightarrow> time \<Rightarrow> SaleEvent list \<Rightarrow> bot \<Rightarrow> exn option \<times> bot" where
  "process_sales get fetcher send now [] st = (None, st)"
| "process_sales get fetcher send now (sale # sales) st =
     (case sale_id sale of
        Inl e \<Rightarrow> (Some e, st)
      | Inr sid \<Rightarrow>
          if sid \<in> processed_sales st then process_sales get fetcher send now sales st
          else
            (let st1 = st\<lparr>trace := trace st @ [Log_fetching sid]\<rparr>
             in case process_sale_try get fetcher send now sale sid st1 of
                  Inl e \<Rightarrow>
                    process_sales get fetcher send now sales
                      (st1\<lparr>trace := trace st1 @ [Log_error sid e]\<rparr>)
                | Inr st2 \<Rightarrow> process_sales get fetcher send now sales st2))"

section \<open>Notions used in the statements\<close>

subsection \<open>Batches of the image enricher\<close>

text \<open>A list cut into consecutive pieces of \<open>n\<close> elements; the last piece may be shorter.\<close>

function chunks :: "nat \<Rightarrow> 'a list \<Rightarrow> 'a list list" where
  "chunks n xs = (if xs = [] \<or> n = 0 then [] else take n xs # chunks n (drop n xs))"
  by pat_completeness auto
termination
  by (relation "measure (\<lambda>(n, xs). length xs)") auto

text \<open>A separator between consecutive elements, none after the last.\<close>

fun intersperse :: "'a \<Rightarrow> 'a list \<Rightarrow> 'a list" where
  "intersperse sep [] = []"
| "intersperse sep [x] = [x]"
| "intersperse sep (x # y # ys) = x # sep # intersperse sep (y # ys)"

text \<open>The batches of lookups among the actions, in order.\<close>

fun lookups_of :: "action list \<Rightarrow> string list list" where
  "lookups_of [] = []"
| "lookups_of (Lookups b # acts) = b # lookups_of acts"
| "lookups_of (Sleep # acts) = lookups_of acts"

subsection \<open>Notifications on the channel\<close>

text \<open>The keys of the sales whose notification was delivered, in order.\<close>

fun sent_keys :: "bot_event list \<Rightarrow> string list" where
  "sent_keys [] = []"
| "sent_keys (Sent k e # evs) = k # sent_keys evs"
| "sent_keys (ev # evs) = sent_keys evs"

subsection \<open>Concrete inputs\<close>

text \<open>A network on which every request fails, and a fetcher.\<close>

definition offline :: http where
  "offline url params = Inl ClientError"

definition fetcher0 :: SalesFetcher where
  "fetcher0 = \<lparr>contract_address = ''0xc0ffee'', api_key = None, last_fetch_time = 100\<rparr>"

definition ids23 :: "string list" where
  "ids23 = [''101'', ''102'', ''103'', ''104'', ''105'', ''106'', ''107'', ''108'',
            ''109'', ''110'', ''111'', ''112'', ''113'', ''114'', ''115'', ''116'',
            ''117'', ''118'', ''119'', ''120'', ''121'', ''122'', ''123'']"

text \<open>A raw marketplace event: transaction hash, token id, currency symbol, price.\<close>

definition raw_event :: "string \<Rightarrow> string \<Rightarrow> string \<Rightarrow> string \<Rightarrow> json" where
  "raw_event h t cur p =
     JDict [(''transaction'', JDict [(''transaction_hash'', JStr h)]),
            (''asset'', JDict [(''token_id'', JStr t)]),
            (''payment_token'', JDict [(''symbol'', JStr cur)]),
            (''total_price'', JStr p)]"

text \<open>A response with a single sale of one token, and one with a sweep of two tokens.\<close>

definition single_response :: json where
  "single_response =
     JDict [(''asset_events'', JList [raw_event ''0xabc'' ''7'' ''ETH'' ''1000000000000000000''])]"

definition single_sale :: SaleEvent where
  "single_sale =
     \<lparr>tx_hash = JStr ''0xabc'', buyer = JStr ''Unknown'', seller = JStr ''Unknown'',
      token_id = Some ''7'', token_ids = None, token_count = 1,
      total_price = 1000000000000000000, timestamp = Some 0\<rparr>"

definition sweep_response :: json where
  "sweep_response =
     JDict [(''asset_events'',
             JList [raw_event ''0xdef'' ''8'' ''ETH'' ''5'', raw_event ''0xdef'' ''9'' ''ETH'' ''6''])]"

definition sweep_sale :: SaleEvent where
  "sweep_sale =
     \<lparr>tx_hash = JStr ''0xdef'', buyer = JStr ''Unknown'', seller = JStr ''Unknown'',
      token_id = None, token_ids = Some [''8'', ''9''], token_count = 2,
      total_price = 11, timestamp = Some 0\<rparr>"

text \<open>
  Networks that answer every request alike: with status 429, with status 200 and the
  single-sale response, and with status 200 and an asset that has an image.
\<close>

definition rate_limited :: http where
  "rate_limited url params =
     Inr \<lparr>status = 429, json_body = Inl ValueError, text_body = Inr ''Too Many Requests''\<rparr>"

definition serving_single :: http where
  "serving_single url params =
     Inr \<lparr>status = 200, json_body = Inr single_response, text_body = Inr []\<rparr>"

definition serving_images :: http where
  "serving_images url params =
     Inr \<lparr>status = 200,
          json_body = Inr (JDict [(''image_url'', JStr ''https://img.example/nft.png'')]),
          text_body = Inr []\<rparr>"

text \<open>A channel that delivers every message, one that refuses sweeps, and a fresh bot.\<close>

definition delivering :: channel where
  "delivering e = None"

definition refusing_sweeps :: channel where
  "refusing_sweeps e = (if embed_color e = Blue then None else Some DiscordError)"

definition bot0 :: bot where
  "bot0 = \<lparr>processed_sales = {}, trace = []\<rparr>"

section \<open>Basic facts\<close>

lemma bindE_eq_Inr: "bindE m f = Inr y \<longleftrightarrow> (\<exists>x. m = Inr x \<and> f x = Inr y)"
  by (cases m) (simp_all add: bindE_def)

lemma bindE_Inr [simp]: "bindE (Inr x) f = f x"
  by (simp add: bindE_def)

lemma bindE_Inl [simp]: "bindE (Inl e) f = Inl e"
  by (simp add: bindE_def)

declare chunks.simps [simp del]
declare batches.simps [simp del]

section \<open>The sale aggregator: shape of the emitted sales\<close>

lemma sale_of_group_Some:
  assumes "sale_of_group now tx events = Inr (Some s)"
  obtains b sl ids price where "collect events [] 0 = Inr (ids, price)" and "ids \<noteq> []"
    and "s = make_sale now tx b sl ids price"
  using assms
  by (cases events) (auto simp: sale_of_group_def bindE_eq_Inr split: if_splits)

lemma sale_of_group_ids:
  assumes "sale_of_group now tx events = Inr (Some s)"
  shows "\<exists>ids. ids \<noteq> [] \<and> token_count s = int (length ids) \<and>
           token_id s = (if length ids = 1 then Some (hd ids) else None) \<and>
           token_ids s = (if 1 < length ids then Some ids else None)"
proof -
  from assms obtain b sl ids price where n: "ids \<noteq> []"
    and s: "s = make_sale now tx b sl ids price"
    by (rule sale_of_group_Some)
  show ?thesis
    by (rule exI [of _ ids]) (simp add: s n make_sale_def)
qed

lemma sales_of_groups_mem:
  "sales_of_groups now g = Inr sales \<Longrightarrow> s \<in> set sales \<Longrightarrow>
     \<exists>tx events. (tx, events) \<in> set g \<and> sale_of_group now tx events = Inr (Some s)"
proof (induction g arbitrary: sales)
  case Nil
  then show ?case by simp
next
  case (Cons p g)
  obtain tx events where p: "p = (tx, events)" by (cases p)
  from Cons.prems(1) obtain r rest where
    r: "sale_of_group now tx events = Inr r" and
    rest: "sales_of_groups now g = Inr rest" and
    sales: "sales = (case r of Some sale \<Rightarrow> sale # rest | None \<Rightarrow> rest)"
    by (auto simp: p bindE_eq_Inr)
  show ?case
  proof (cases "s \<in> set rest")
    case True
    with Cons.IH [OF rest] show ?thesis by auto
  next
    case False
    with Cons.prems(2) sales have "r = Some s" by (cases r) auto
    with r p show ?thesis by auto
  qed
qed

lemma parse_sales_response_mem:
  assumes "parse_sales_response now data = Inr sales" and "s \<in> set sales"
  shows "\<exists>tx events. sale_of_group now tx events = Inr (Some s)"
proof -
  from assms(1) have "sales = [] \<or> (\<exists>g. sales_of_groups now g = Inr sales)"
    by (auto simp: parse_sales_response_def bindE_eq_Inr split: if_splits)
  with assms(2) show ?thesis
    using sales_of_groups_mem by fastforce
qed

text \<open>
  C1, as the code has it. A sale emitted by the parser stands for a non-empty list of
  collected token ids, and \<open>token_count\<close> is the length of that list. The field
  \<open>token_ids\<close> holds the list only when it has more than one element; for a single
  token the field is \<open>None\<close> and the id is in \<open>token_id\<close>.
\<close>

theorem emitted_sale_token_fields:
  assumes "parse_sales_response now data = Inr sales" and "s \<in> set sales"
  shows "\<exists>ids. ids \<noteq> [] \<and> token_count s = int (length ids) \<and>
           token_id s = (if length ids = 1 then Some (hd ids) else None) \<and>
           token_ids s = (if 1 < length ids then Some ids else None)"
  using parse_sales_response_mem [OF assms] sale_of_group_ids by blast

lemmas parse_eval =
  parse_sales_response_def sale_of_group_def make_sale_def event_tx_hash_def event_token_def
  event_is_native_def event_price_def has_key_def append_event_def py_key_eq_def
  py_int_str_def unsigned_int_def strip_def is_space_def is_digit_def digit_val_def
  raw_event_def

lemma parse_single_response: "parse_sales_response 0 single_response = Inr [single_sale]"
  by (simp add: parse_eval single_response_def single_sale_def)

lemma parse_sweep_response: "parse_sales_response 0 sweep_response = Inr [sweep_sale]"
  by (simp add: parse_eval sweep_response_def sweep_sale_def)

theorem emitted_sale_token_fields_witness:
  "parse_sales_response 0 sweep_response = Inr [sweep_sale] \<and> sweep_sale \<in> set [sweep_sale] \<and>
   (\<exists>ids. ids \<noteq> [] \<and> token_count sweep_sale = int (length ids) \<and>
      token_id sweep_sale = (if length ids = 1 then Some (hd ids) else None) \<and>
      token_ids sweep_sale = (if 1 < length ids then Some ids else None))"
proof -
  have m: "sweep_sale \<in> set [sweep_sale]" by simp
  show ?thesis
    using emitted_sale_token_fields [OF parse_sweep_response m] parse_sweep_response m
    by blast
qed

text \<open>
  C1 as stated fails: the sale parsed from a response with one event has no
  \<open>token_ids\<close> sequence at all, although its \<open>token_count\<close> is 1.
\<close>

theorem emitted_sale_token_ids_counterexample:
  "parse_sales_response 0 single_response = Inr [single_sale] \<and>
   token_ids single_sale = None \<and> token_count single_sale = 1"
  using parse_single_response by (simp add: single_sale_def)

section \<open>Sweep categories\<close>

text \<open>
  C8. A token count is the length of a non-empty list, so it is at least 1. For every
  such \<open>t\<close> the category is \<open>single\<close> exactly when \<open>t = 1\<close>, \<open>mini\<close> exactly when
  \<open>2 \<le> t \<le> 5\<close>, \<open>big\<close> exactly when \<open>6 \<le> t \<le> 10\<close> and \<open>huge\<close> exactly when
  \<open>t \<ge> 11\<close>; the four names differ, so exactly one of the four cases holds.
\<close>

theorem get_sweep_category_boundaries:
  assumes "1 \<le> t"
  shows "(get_sweep_category t = ''single'' \<longleftrightarrow> t = 1) \<and>
         (get_sweep_category t = ''mini'' \<longleftrightarrow> 2 \<le> t \<and> t \<le> 5) \<and>
         (get_sweep_category t = ''big'' \<longleftrightarrow> 6 \<le> t \<and> t \<le> 10) \<and>
         (get_sweep_category t = ''huge'' \<longleftrightarrow> 11 \<le> t)"
  using assms by (auto simp: get_sweep_category_def)

theorem get_sweep_category_boundaries_witness:
  "(1::int) \<le> 5 \<and> get_sweep_category 5 = ''mini'' \<and>
   (1::int) \<le> 6 \<and> get_sweep_category 6 = ''big''"
proof -
  have a: "(1::int) \<le> 5" and b: "(1::int) \<le> 6" by simp_all
  from get_sweep_category_boundaries [OF a] have "get_sweep_category 5 = ''mini''" by simp
  moreover from get_sweep_category_boundaries [OF b] have "get_sweep_category 6 = ''big''" by simp
  ultimately show ?thesis by simp
qed

section \<open>The image enricher: batches and pauses\<close>

lemma chunks_Nil [simp]: "chunks n [] = []"
  by (subst chunks.simps) simp

lemma chunks_eq_Nil: "0 < n \<Longrightarrow> chunks n xs = [] \<longleftrightarrow> xs = []"
  by (subst chunks.simps) simp

lemma intersperse_Cons:
  "intersperse sep (x # ys) = x # (if ys = [] then [] else sep # intersperse sep ys)"
  by (cases ys) simp_all

lemma batches_acts:
  "snd (batches get self tids i images acts) =
     acts @ intersperse Sleep (map Lookups (chunks batch_size (drop i tids)))"
proof (induction get self tids i images acts rule: batches.induct)
  case (1 get self tids i images acts)
  show ?case
  proof (cases "i < length tids")
    case True
    have c: "chunks batch_size (drop i tids) =
               take batch_size (drop i tids) # chunks batch_size (drop (i + batch_size) tids)"
      using True by (subst chunks.simps) (simp add: batch_size_def add.commute)
    have e: "chunks batch_size (drop (i + batch_size) tids) = [] \<longleftrightarrow>
               \<not> i + batch_size < length tids"
      by (auto simp: chunks_eq_Nil batch_size_def)
    show ?thesis
      using True 1 [OF True refl refl refl refl] e
      by (subst batches.simps) (simp add: Let_def c intersperse_Cons)
  next
    case False
    have "chunks batch_size (drop i tids) = []"
      using False by (subst chunks.simps) simp
    with False show ?thesis
      by (subst batches.simps) simp
  qed
qed

lemma lookups_of_intersperse: "lookups_of (intersperse Sleep (map Lookups bs)) = bs"
  by (induction bs rule: induct_list012) simp_all

lemma concat_chunks: "0 < n \<Longrightarrow> concat (chunks n xs) = xs"
proof (induction n xs rule: chunks.induct)
  case (1 n xs)
  then show ?case by (subst chunks.simps) auto
qed

lemma chunks_Cons5: "xs \<noteq> [] \<Longrightarrow> chunks 5 xs = take 5 xs # chunks 5 (drop 5 xs)"
  by (subst chunks.simps) simp

lemma batch_count_step:
  assumes "0 < (k::nat)"
  shows "Suc ((k - 5 + 4) div 5) = (k + 4) div 5"
proof (cases "5 \<le> k")
  case True
  then have "k + 4 = (k - 5 + 4) + 5" by simp
  then have "(k + 4) div 5 = ((k - 5 + 4) + 5) div 5" by (rule arg_cong)
  also have "\<dots> = Suc ((k - 5 + 4) div 5)" by simp
  finally show ?thesis by simp
next
  case False
  with assms have "k - 5 + 4 = 4" and "5 \<le> k + 4" and "k + 4 < 5 * 2" by simp_all
  then have "(k - 5 + 4) div 5 = 0" and "(k + 4) div 5 = 1"
    by (simp_all add: div_nat_eqI)
  then show ?thesis by simp
qed

lemma length_chunks5: "length (chunks 5 xs) = (length xs + 4) div 5"
proof (induction xs rule: length_induct)
  case (1 xs)
  show ?case
  proof (cases "xs = []")
    case True
    then show ?thesis by simp
  next
    case False
    then have "length (drop 5 xs) < length xs" by simp
    with 1 have "length (chunks 5 (drop 5 xs)) = (length (drop 5 xs) + 4) div 5" by blast
    then have "length (chunks 5 xs) = Suc ((length xs - 5 + 4) div 5)"
      by (simp add: chunks_Cons5 [OF False])
    also have "\<dots> = (length xs + 4) div 5"
      using False by (intro batch_count_step) simp
    finally show ?thesis .
  qed
qed

text \<open>
  C5, as the code has it. The token ids are cut down to the first 20 and these are
  looked up in consecutive batches of 5 (the last batch may be shorter), with one
  pause between two consecutive batches and none after the last. So the ids looked up
  are exactly the first 20, and the number of batches is the number of these ids
  divided by 5, rounded up: 23 ids give the 4 batches (5,5,5,5), and the 21st to 23rd
  id are never looked up.
\<close>

theorem fetch_nft_images_batching:
  "snd (fetch_nft_images_run get self (Some tids)) =
     intersperse Sleep (map Lookups (chunks 5 (take 20 tids))) \<and>
   concat (lookups_of (snd (fetch_nft_images_run get self (Some tids)))) = take 20 tids \<and>
   length (lookups_of (snd (fetch_nft_images_run get self (Some tids)))) =
     (min 20 (length tids) + 4) div 5"
proof -
  have a: "snd (fetch_nft_images_run get self (Some tids)) =
     intersperse Sleep (map Lookups (chunks 5 (take 20 tids)))"
    by (simp add: fetch_nft_images_run_def fetch_nft_images_try_def batches_acts batch_size_def)
  show ?thesis
    unfolding a lookups_of_intersperse
    by (simp add: concat_chunks length_chunks5 min.commute)
qed

text \<open>
  C5 as stated fails: for 23 token ids there are four batches, not the five batches
  (5,5,5,5,3), and the 20th id is among the ids looked up.
\<close>

theorem fetch_nft_images_batching_counterexample:
  "map length (lookups_of (snd (fetch_nft_images_run offline fetcher0 (Some ids23))))
     = [5, 5, 5, 5] \<and>
   ids23 ! 19 \<in> set (concat (lookups_of (snd (fetch_nft_images_run offline fetcher0 (Some ids23)))))"
  by code_simp

end
